theory Spec2Isabelle
  imports Main
begin

section \<open>Values shared by client and server\<close>

text \<open>
  JSON values as \<open>json.loads\<close> produces them and \<open>send_json\<close> serialises them.
  A \<open>JObj\<close> holds the entries of the Python dict (its keys are distinct, so
  \<open>map_of\<close> is the dict lookup). Numbers are integers here.
\<close>

datatype json =
    JNull
  | JBool bool
  | JNum int
  | JStr string
  | JArr "json list"
  | JObj "(string \<times> json) list"

text \<open>Python truthiness of a JSON value (\<open>if value:\<close>, \<open>x and y\<close>).\<close>

fun truthy :: "json \<Rightarrow> bool" where
  "truthy JNull = False"
| "truthy (JBool b) = b"
| "truthy (JNum n) = (n \<noteq> 0)"
| "truthy (JStr s) = (s \<noteq> [])"
| "truthy (JArr xs) = (xs \<noteq> [])"
| "truthy (JObj kvs) = (kvs \<noteq> [])"

text \<open>
  Exceptions. \<open>NetError\<close> stands for the four connection errors that
  \<open>ClientSocket.connect\<close> names (\<open>ClientConnectorError\<close>, \<open>ClientError\<close>,
  \<open>asyncio.TimeoutError\<close>, \<open>WSServerHandshakeError\<close>), \<open>Exception\<close> for every
  other subclass of \<open>Exception\<close> (its argument is \<open>str(e)\<close>), and \<open>Cancelled\<close> for
  \<open>asyncio.CancelledError\<close>, which \<open>except Exception\<close> does not catch.
\<close>

datatype exn = NetError string | Exception string | Cancelled

fun is_Exception :: "exn \<Rightarrow> bool" where
  "is_Exception Cancelled = False"
| "is_Exception _ = True"

fun str_exn :: "exn \<Rightarrow> string" where
  "str_exn (NetError m) = m"
| "str_exn (Exception m) = m"
| "str_exn Cancelled = []"

text \<open>\<open>payload.get(key)\<close>: only a dict has \<open>get\<close>; anything else raises AttributeError.\<close>

fun py_get :: "json \<Rightarrow> string \<Rightarrow> exn + json" where
  "py_get (JObj kvs) k = Inr (case map_of kvs k of None \<Rightarrow> JNull | Some v \<Rightarrow> v)"
| "py_get _ k = Inl (Exception ''object has no attribute get'')"

subsection \<open>Python dicts with string keys\<close>

text \<open>
  A dict is the list of its items in insertion order. Assignment replaces the value of
  an existing key in place and appends a new key; \<open>pop(key, None)\<close> removes the key
  if it is there.
\<close>

fun dict_set :: "string \<Rightarrow> 'v \<Rightarrow> (string \<times> 'v) list \<Rightarrow> (string \<times> 'v) list" where
  "dict_set k v [] = [(k, v)]"
| "dict_set k v ((k', v') # d) = (if k' = k then (k, v) # d else (k', v') # dict_set k v d)"

definition dict_pop :: "string \<Rightarrow> (string \<times> 'v) list \<Rightarrow> (string \<times> 'v) list" where
  "dict_pop k d = filter (\<lambda>kv. fst kv \<noteq> k) d"

text \<open>
  \<open>key in d\<close> followed by \<open>d[key]\<close> for a key that came off the wire: a list or a
  dict is unhashable (TypeError), a string is looked up (the result is the key with its
  value), and any other hashable value is not a key of a dict whose keys are strings.
\<close>

fun dict_find :: "json \<Rightarrow> (string \<times> 'v) list \<Rightarrow> exn + (string \<times> 'v) option" where
  "dict_find (JStr s) d = Inr (map_option (Pair s) (map_of d s))"
| "dict_find (JArr xs) d = Inl (Exception ''unhashable type'')"
| "dict_find (JObj kvs) d = Inl (Exception ''unhashable type'')"
| "dict_find _ d = Inr None"

text \<open>\<open>str.startswith\<close> and \<open>str(n)\<close> for a count.\<close>

fun startswith :: "string \<Rightarrow> string \<Rightarrow> bool" where
  "startswith s [] = True"
| "startswith [] (p # ps) = False"
| "startswith (c # s) (p # ps) = (c = p \<and> startswith s ps)"

definition digit :: "nat \<Rightarrow> char" where
  "digit d = ''0123456789'' ! d"

fun str_nat :: "nat \<Rightarrow> string" where
  "str_nat n = (if n < 10 then [digit n] else str_nat (n div 10) @ [digit (n mod 10)])"

declare str_nat.simps [simp del]

subsection \<open>Frames and transports\<close>

text \<open>
  The dict handed to \<open>send_json\<close>: \<open>event\<close>, \<open>data\<close> and, when the key is
  present, \<open>callback\<close>.
\<close>

record frame =
  f_event :: json
  f_data :: json
  f_callback :: "json option"

text \<open>
  A websocket (aiohttp's \<open>ClientWebSocketResponse\<close> or \<open>WebSocketResponse\<close>), as far
  as this code looks at it: the \<open>closed\<close> flag, the frames written so far, what the
  coming calls of \<open>send_json\<close> will do (\<open>None\<close>: the frame is written, \<open>Some e\<close>:
  the call raises \<open>e\<close>; past the end of the list every send succeeds), and what
  \<open>close()\<close> will do (\<open>None\<close>: it completes, \<open>Some e\<close>: it raises \<open>e\<close>).
\<close>

record transport =
  ws_closed :: bool
  ws_sent :: "frame list"
  ws_faults :: "exn option list"
  ws_close_fault :: "exn option"

definition send_json :: "frame \<Rightarrow> transport \<Rightarrow> (exn + unit) \<times> transport" where
  "send_json f t =
     (case ws_faults t of
        [] \<Rightarrow> (Inr (), t\<lparr>ws_sent := ws_sent t @ [f]\<rparr>)
      | None # rest \<Rightarrow> (Inr (), t\<lparr>ws_sent := ws_sent t @ [f], ws_faults := rest\<rparr>)
      | Some e # rest \<Rightarrow> (Inl e, t\<lparr>ws_faults := rest\<rparr>))"

text \<open>The next \<open>n\<close> sends on the websocket succeed.\<close>

definition sends_ok :: "nat \<Rightarrow> transport \<Rightarrow> bool" where
  "sends_ok n t = list_all (\<lambda>x. x = None) (take n (ws_faults t))"

text \<open>
  \<open>await ws.close()\<close>: aiohttp sets the flag before it waits for the closing
  handshake, so the flag is set also when the call raises.
\<close>

definition ws_close :: "transport \<Rightarrow> (exn + unit) \<times> transport" where
  "ws_close t =
     (case ws_close_fault t of
        None \<Rightarrow> (Inr (), t\<lparr>ws_closed := True\<rparr>)
      | Some e \<Rightarrow> (Inl e, t\<lparr>ws_closed := True\<rparr>))"

section \<open>The client: \<open>ClientSocket\<close>\<close>

text \<open>
  A callable is known by its identity; what calling it does is given by the
  environment (see \<open>behaviour\<close> below), since a Python callback can do anything to the
  client it closes over. \<open>session\<close> holds the \<open>closed\<close> flag of the
  \<open>aiohttp.ClientSession\<close>; \<open>sessions_made\<close> counts the sessions this client has
  created (instrumentation, not an attribute of the class). Logging goes to the module's
  logger, outside the object, and is not part of the state.
\<close>

type_synonym callable = nat

record client =
  listener :: "(string \<times> callable) list"
  ws :: "transport option"
  session :: "bool option"
  status_listeners :: "callable list"
  running :: bool
  sessions_made :: nat

text \<open>Calling a listener with \<open>data\<close> (and awaiting it, if it is a coroutine).\<close>

type_synonym behaviour = "callable \<Rightarrow> json \<Rightarrow> client \<Rightarrow> (exn + unit) \<times> client"

definition connected :: "client \<Rightarrow> bool" where
  "connected c = (case ws c of None \<Rightarrow> False | Some t \<Rightarrow> \<not> ws_closed t)"

definition on :: "string \<Rightarrow> callable \<Rightarrow> client \<Rightarrow> client" where
  "on ev cb c = c\<lparr>listener := dict_set ev cb (listener c)\<rparr>"

definition un :: "string \<Rightarrow> client \<Rightarrow> client" where
  "un ev c = c\<lparr>listener := dict_pop ev (listener c)\<rparr>"

subsection \<open>\<open>emit\<close>\<close>

text \<open>
  The correlation token of \<open>emit\<close>: \<open>event + "_ask"\<close>, then \<open>"_"\<close> and the number
  of registered keys that start with \<open>event + "_ask"\<close>.
\<close>

definition ask_token :: "string \<Rightarrow> (string \<times> callable) list \<Rightarrow> string" where
  "ask_token ev l =
     (let evt = ev @ ''_ask'';
          count = length (filter (\<lambda>k. startswith k evt) (map fst l))
      in evt @ ''_'' @ str_nat count)"

text \<open>
  \<open>emit\<close> returns \<open>Inr b\<close> for \<open>return b\<close>; \<open>Inl e\<close> is an exception that
  \<open>except Exception\<close> lets through.
\<close>

definition emit ::
  "string \<Rightarrow> json \<Rightarrow> callable option \<Rightarrow> client \<Rightarrow> (exn + bool) \<times> client" where
  "emit ev dat cb c =
     (case ws c of
        None \<Rightarrow> (Inr False, c)
      | Some t \<Rightarrow>
          if ws_closed t then (Inr False, c)
          else
            let message = \<lparr>f_event = JStr ev, f_data = dat, f_callback = None\<rparr>;
                evt = ask_token ev (listener c);
                message' = (case cb of None \<Rightarrow> message
                            | Some f \<Rightarrow> message\<lparr>f_callback := Some (JStr evt)\<rparr>);
                c' = (case cb of None \<Rightarrow> c | Some f \<Rightarrow> on evt f c)
            in case send_json message' t of
                 (Inr u, t') \<Rightarrow> (Inr True, c'\<lparr>ws := Some t'\<rparr>)
               | (Inl e, t') \<Rightarrow>
                   if is_Exception e then (Inr False, c'\<lparr>ws := Some t'\<rparr>)
                   else (Inl e, c'\<lparr>ws := Some t'\<rparr>))"

subsection \<open>\<open>handle_message\<close>\<close>

text \<open>
  The argument is what \<open>json.loads(message)\<close> gives: \<open>None\<close> when it raises
  \<open>JSONDecodeError\<close>. The result lists the listeners that were called, each with the
  data it was called with, in order. Every \<open>Exception\<close> is caught and logged.
\<close>

definition call_listener ::
  "behaviour \<Rightarrow> callable \<Rightarrow> json \<Rightarrow> bool \<Rightarrow> string \<Rightarrow> client
     \<Rightarrow> (exn + unit) \<times> (callable \<times> json) list \<times> client" where
  "call_listener beh f dat once key c =
     (case beh f dat c of
        (Inl e, c') \<Rightarrow> ((if is_Exception e then Inr () else Inl e), [(f, dat)], c')
      | (Inr u, c') \<Rightarrow> (Inr (), [(f, dat)], (if once then un key c' else c')))"

definition by_event ::
  "behaviour \<Rightarrow> json \<Rightarrow> json \<Rightarrow> client \<Rightarrow> (exn + unit) \<times> (callable \<times> json) list \<times> client" where
  "by_event beh ev dat c =
     (case dict_find ev (listener c) of
        Inl e \<Rightarrow> (Inr (), [], c)
      | Inr None \<Rightarrow> (Inr (), [], c)
      | Inr (Some (key, f)) \<Rightarrow> call_listener beh f dat False key c)"

definition handle_message ::
  "behaviour \<Rightarrow> json option \<Rightarrow> client \<Rightarrow> (exn + unit) \<times> (callable \<times> json) list \<times> client" where
  "handle_message beh message c =
     (case message of
        None \<Rightarrow> (Inr (), [], c)
      | Some response \<Rightarrow>
          (case (py_get response ''event'', py_get response ''data'',
                 py_get response ''callback'') of
             (Inr ev, Inr dat, Inr callback_id) \<Rightarrow>
               if truthy callback_id then
                 (case dict_find callback_id (listener c) of
                    Inl e \<Rightarrow> (Inr (), [], c)
                  | Inr (Some (key, f)) \<Rightarrow> call_listener beh f dat True key c
                  | Inr None \<Rightarrow> by_event beh ev dat c)
               else by_event beh ev dat c
           | _ \<Rightarrow> (Inr (), [], c)))"

subsection \<open>\<open>connect\<close>, \<open>listen_messages\<close>, \<open>close\<close>\<close>

text \<open>
  What the websocket yields to \<open>async for msg in self.ws\<close>: a text message (with
  what \<open>json.loads\<close> makes of it), or a message of another type.
\<close>

datatype ws_msg = Text "json option" | Binary | Closed | Error | Other

text \<open>
  The second argument of a status listener: the message \<open>connect\<close> builds from the
  exception, by the \<open>except\<close> clause that built it.
\<close>

datatype reason = ConnectFailed exn | UnknownError exn

text \<open>
  The code the client calls into: its listeners, its status listeners and the
  \<open>after_connect\<close> hook a subclass may override.
\<close>

record hooks =
  call_handler :: behaviour
  call_status :: "callable \<Rightarrow> bool \<Rightarrow> reason option \<Rightarrow> client \<Rightarrow> (exn + unit) \<times> client"
  after_connect :: "client \<Rightarrow> (exn + unit) \<times> client"

text \<open>
  \<open>_notify_status_change\<close>: each listener in turn, an \<open>Exception\<close> of one logged and
  the next one called. The listeners are those registered when the notification starts.
\<close>

fun notify_each ::
  "hooks \<Rightarrow> callable list \<Rightarrow> bool \<Rightarrow> reason option \<Rightarrow> client \<Rightarrow> (exn + unit) \<times> client" where
  "notify_each hk [] up err c = (Inr (), c)"
| "notify_each hk (l # ls) up err c =
     (case call_status hk l up err c of
        (Inl e, c') \<Rightarrow> if is_Exception e then notify_each hk ls up err c' else (Inl e, c')
      | (Inr u, c') \<Rightarrow> notify_each hk ls up err c')"

definition notify_status_change ::
  "hooks \<Rightarrow> bool \<Rightarrow> reason option \<Rightarrow> client \<Rightarrow> (exn + unit) \<times> client" where
  "notify_status_change hk up err c = notify_each hk (status_listeners c) up err c"

text \<open>
  \<open>connect\<close> is a coroutine, and several calls of it may be alive on one client. A
  call runs without interruption from one point where it waits for the outside world to
  the next; these points are \<open>await self.session.ws_connect(...)\<close>, the wait for the
  next message in \<open>async for msg in self.ws\<close>, and \<open>await asyncio.sleep(...)\<close>.
  (The calls into listeners and hooks and the awaits of \<open>close()\<close> are taken to finish
  without another task running in between.) \<open>pc\<close> says where a call of \<open>connect\<close>
  stands: waiting at one of the three points, returned, or ended by an exception.
\<close>

datatype pc = Connecting | Receiving | Sleeping | Returned | Raised exn

text \<open>The test of \<open>while self._running\<close>, followed by the call of \<open>ws_connect\<close>.\<close>

definition loop_test :: "client \<Rightarrow> pc \<times> client" where
  "loop_test c = (if running c then (Connecting, c) else (Returned, c))"

text \<open>
  The end of a round, after the \<open>try\<close> statement: a websocket that is still open is
  closed, \<open>self.ws\<close> is set to \<open>None\<close>, and the call sleeps if \<open>_running\<close> holds;
  if not, the loop test fails at once.
\<close>

definition round_end :: "client \<Rightarrow> pc \<times> client" where
  "round_end c =
     (case (case ws c of
              None \<Rightarrow> (Inr (), c)
            | Some t \<Rightarrow>
                if ws_closed t then (Inr (), c)
                else (case ws_close t of (r, t') \<Rightarrow> (r, c\<lparr>ws := Some t'\<rparr>))) of
        (Inl e, c1) \<Rightarrow> (Raised e, c1)
      | (Inr u, c1) \<Rightarrow>
          if running c1 then (Sleeping, c1\<lparr>ws := None\<rparr>) else (Returned, c1\<lparr>ws := None\<rparr>))"

text \<open>
  The two \<open>except\<close> clauses: both tell the status listeners, then the round ends;
  \<open>Cancelled\<close> is caught by neither.
\<close>

definition attempt_except :: "hooks \<Rightarrow> exn \<Rightarrow> client \<Rightarrow> pc \<times> client" where
  "attempt_except hk e c =
     (case (case e of
              NetError m \<Rightarrow> notify_status_change hk False (Some (ConnectFailed e)) c
            | Exception m \<Rightarrow> notify_status_change hk False (Some (UnknownError e)) c
            | Cancelled \<Rightarrow> (Inl e, c)) of
        (Inl e', c') \<Rightarrow> (Raised e', c')
      | (Inr u, c') \<Rightarrow> round_end c')"

text \<open>
  The call of \<open>connect\<close> up to its first wait: nothing when \<open>_running\<close> is set;
  otherwise the flag is set, an open session is closed, a new one made and the loop
  entered.
\<close>

definition connect :: "client \<Rightarrow> pc \<times> client" where
  "connect c =
     (if running c then (Returned, c)
      else loop_test (c\<lparr>running := True, session := Some False,
                        sessions_made := sessions_made c + 1\<rparr>))"

text \<open>
  \<open>ws_connect\<close> has raised, or has returned a websocket: the status listeners and
  \<open>after_connect\<close> are called and \<open>listen_messages\<close> starts to wait for a message
  (it returns at once when \<open>self.ws\<close> is \<open>None\<close>).
\<close>

datatype outcome = Refused exn | Accepted transport

definition ws_connected :: "hooks \<Rightarrow> outcome \<Rightarrow> client \<Rightarrow> pc \<times> client" where
  "ws_connected hk res c =
     (case res of
        Refused e \<Rightarrow> attempt_except hk e c
      | Accepted t \<Rightarrow>
          (case notify_status_change hk True None (c\<lparr>ws := Some t\<rparr>) of
             (Inl e, c1) \<Rightarrow> attempt_except hk e c1
           | (Inr u, c1) \<Rightarrow>
               (case after_connect hk c1 of
                  (Inl e, c2) \<Rightarrow> attempt_except hk e c2
                | (Inr u, c2) \<Rightarrow> if ws c2 = None then round_end c2 else (Receiving, c2))))"

text \<open>
  The wait in \<open>async for msg in self.ws\<close> is over: a message has come, or the
  iterator has stopped or raised. A text message goes to \<open>handle_message\<close> and the
  loop waits again; \<open>CLOSED\<close> and \<open>ERROR\<close> break out of the loop; an \<open>Exception\<close>
  is caught in \<open>listen_messages\<close>. Then the round ends.
\<close>

datatype inbound = Msg ws_msg | Stop | Fail exn

definition message_received :: "hooks \<Rightarrow> inbound \<Rightarrow> client \<Rightarrow> pc \<times> client" where
  "message_received hk m c =
     (case m of
        Msg (Text txt) \<Rightarrow>
          (case handle_message (call_handler hk) txt c of
             (Inl e, calls, c') \<Rightarrow> (Raised e, c')
           | (Inr u, calls, c') \<Rightarrow> (Receiving, c'))
      | Msg Closed \<Rightarrow> round_end c
      | Msg Error \<Rightarrow> round_end c
      | Msg other \<Rightarrow> (Receiving, c)
      | Stop \<Rightarrow> round_end c
      | Fail e \<Rightarrow> if is_Exception e then round_end c else (Raised e, c))"

text \<open>The sleep is over: the loop test again.\<close>

definition woken :: "client \<Rightarrow> pc \<times> client" where
  "woken c = loop_test c"

text \<open>\<open>close\<close>: the flag is cleared, an open websocket closed and dropped, an open session too.\<close>

definition close :: "client \<Rightarrow> (exn + unit) \<times> client" where
  "close c =
     (let c1 = c\<lparr>running := False\<rparr>
      in case (case ws c1 of
                 None \<Rightarrow> (Inr (), c1)
               | Some t \<Rightarrow>
                   if ws_closed t then (Inr (), c1)
                   else (case ws_close t of
                           (Inl e, t') \<Rightarrow> (Inl e, c1\<lparr>ws := Some t'\<rparr>)
                         | (Inr u, t') \<Rightarrow> (Inr (), c1\<lparr>ws := None\<rparr>))) of
           (Inl e, c2) \<Rightarrow> (Inl e, c2)
         | (Inr u, c2) \<Rightarrow>
             (case session c2 of
                None \<Rightarrow> (Inr (), c2)
              | Some closed \<Rightarrow>
                  if closed then (Inr (), c2) else (Inr (), c2\<lparr>session := None\<rparr>)))"

text \<open>
  One client and the calls of \<open>connect\<close> alive on it, in the order they were made.
  An action is a call of \<open>connect\<close> or \<open>close\<close> by the application, or the event a
  waiting call of \<open>connect\<close> was waiting for; an action for a call that is not
  waiting for it changes nothing.
\<close>

record system =
  shared :: client
  tasks :: "pc list"

datatype action =
    CallConnect
  | CallClose
  | WsConnect nat outcome
  | Incoming nat inbound
  | Wake nat

definition resume :: "nat \<Rightarrow> pc \<Rightarrow> (client \<Rightarrow> pc \<times> client) \<Rightarrow> system \<Rightarrow> system" where
  "resume i at f s =
     (if i < length (tasks s) \<and> tasks s ! i = at then
        (case f (shared s) of (p, c) \<Rightarrow> s\<lparr>shared := c, tasks := (tasks s)[i := p]\<rparr>)
      else s)"

fun step :: "hooks \<Rightarrow> system \<Rightarrow> action \<Rightarrow> system" where
  "step hk s CallConnect =
     (case connect (shared s) of (p, c) \<Rightarrow> s\<lparr>shared := c, tasks := tasks s @ [p]\<rparr>)"
| "step hk s CallClose = s\<lparr>shared := snd (close (shared s))\<rparr>"
| "step hk s (WsConnect i res) = resume i Connecting (ws_connected hk res) s"
| "step hk s (Incoming i m) = resume i Receiving (message_received hk m) s"
| "step hk s (Wake i) = resume i Sleeping woken s"

definition run :: "hooks \<Rightarrow> action list \<Rightarrow> system \<Rightarrow> system" where
  "run hk acts s = foldl (step hk) s acts"

text \<open>The calls of \<open>connect\<close> that are inside the receive loop of \<open>listen_messages\<close>.\<close>

definition receive_loops :: "system \<Rightarrow> nat" where
  "receive_loops s = length (filter (\<lambda>p. p = Receiving) (tasks s))"

section \<open>The server: \<open>IO\<close>, \<open>ask\<close>, \<open>todo\<close>, \<open>init_websocket\<close>, \<open>broadcast\<close>\<close>

text \<open>
  \<open>kitHttp/socket.py\<close> (\<open>IO\<close>, \<open>init_websocket\<close>) and
  \<open>kit_http/websocket\<close> (\<open>Socket\<close>, \<open>websocket\<close>) are the same code under two
  names; the definitions below follow the first and hold for both.

  What a handler returns: a JSON value, or an instance of \<open>Result\<close> (a class of the
  \<open>netfere\<close> library), of which the code uses the truth value and the \<open>json\<close>
  attribute.
\<close>

datatype retval = Plain json | Result bool json

fun retval_truthy :: "retval \<Rightarrow> bool" where
  "retval_truthy (Plain j) = truthy j"
| "retval_truthy (Result b j) = b"

text \<open>\<open>IO.emit\<close> sends the \<open>json\<close> of a \<open>Result\<close> and any other value as it is.\<close>

fun wire_data :: "retval \<Rightarrow> json" where
  "wire_data (Plain j) = j"
| "wire_data (Result b j) = j"

record io =
  io_ws :: transport
  io_id :: string

definition io_emit :: "json \<Rightarrow> retval \<Rightarrow> io \<Rightarrow> (exn + unit) \<times> io" where
  "io_emit ev v i =
     (case send_json \<lparr>f_event = ev, f_data = wire_data v, f_callback = None\<rparr> (io_ws i) of
        (r, t') \<Rightarrow> (r, i\<lparr>io_ws := t'\<rparr>))"

text \<open>
  The request of the upgrade, as this code uses it: whether \<open>ws.can_prepare(request)\<close>
  holds, whether \<open>ws.prepare(request)\<close> raises, and the items \<open>request["event"]\<close> and
  \<open>request["callback"]\<close> that \<open>todo\<close> stores and \<open>ask\<close> reads (\<open>None\<close>: no such
  key).
\<close>

record request =
  can_prepare :: bool
  prepare_raises :: "exn option"
  item_event :: "json option"
  item_callback :: "json option"

text \<open>\<open>ask\<close>, the reply capability: reading a missing item of the request is a KeyError.\<close>

definition ask :: "json \<Rightarrow> io \<Rightarrow> request \<Rightarrow> (exn + unit) \<times> io" where
  "ask dat i r =
     (if ws_closed (io_ws i) then (Inr (), i)
      else
        case item_event r of
          None \<Rightarrow> (Inl (Exception ''KeyError: event''), i)
        | Some ev \<Rightarrow>
            (case item_callback r of
               None \<Rightarrow> (Inl (Exception ''KeyError: callback''), i)
             | Some cb \<Rightarrow>
                 (case send_json \<lparr>f_event = ev, f_data = dat, f_callback = Some cb\<rparr> (io_ws i) of
                    (res, t') \<Rightarrow> (res, i\<lparr>io_ws := t'\<rparr>))))"

text \<open>
  One run of a handler, as far as the connection sees it: it returns a value, raises, or
  awaits \<open>ask(x, io, request)\<close> and goes on according to what that call did
  (\<open>None\<close>: it returned, \<open>Some e\<close>: it raised \<open>e\<close>). A handler is given the event,
  the data and whether \<open>callback=ask\<close> is among its keyword arguments.
\<close>

datatype hprog = Return retval | Raise exn | Ask json "exn option \<Rightarrow> hprog"

type_synonym handler = "json \<Rightarrow> json \<Rightarrow> bool \<Rightarrow> hprog"

primrec run_handler :: "hprog \<Rightarrow> request \<Rightarrow> io \<Rightarrow> (exn + retval) \<times> io" where
  "run_handler (Return v) = (\<lambda>r i. (Inr v, i))"
| "run_handler (Raise e) = (\<lambda>r i. (Inl e, i))"
| "run_handler (Ask x k) =
     (\<lambda>r i. case ask x i r of
               (Inl e, i') \<Rightarrow> run_handler (k (Some e)) r i'
             | (Inr u, i') \<Rightarrow> run_handler (k None) r i')"

text \<open>
  The application object \<open>KitHttp\<close>: the registry \<open>_socket_clients\<close> (connection id
  to \<open>IO\<close> object, by address), the \<open>IO\<close> objects themselves, the next free address,
  and the handlers it has as attributes \<open>"<event>Event"\<close>, by event.
\<close>

record app =
  socket_clients :: "(string \<times> nat) list"
  objects :: "nat \<Rightarrow> io option"
  next_obj :: nat
  event_handler :: "json \<Rightarrow> handler option"

text \<open>\<open>hasattr(self, f"{event}Event")\<close>, then \<open>getattr\<close>; otherwise the handler given.\<close>

definition resolve :: "app \<Rightarrow> json \<Rightarrow> handler \<Rightarrow> handler" where
  "resolve self ev h = (case event_handler self ev of None \<Rightarrow> h | Some h' \<Rightarrow> h')"

definition error_frame :: "exn \<Rightarrow> retval" where
  "error_frame e = Plain (JObj [(''message'', JStr (str_exn e))])"

text \<open>The \<open>try\<close> block of \<open>todo\<close>, and \<open>todo\<close> with its \<open>except Exception\<close>.\<close>

definition todo_try :: "app \<Rightarrow> io \<Rightarrow> json \<Rightarrow> json \<Rightarrow> bool \<Rightarrow> request \<Rightarrow> handler \<Rightarrow> (exn + unit) \<times> io" where
  "todo_try self i ev dat has_cb r h =
     (case run_handler (resolve self ev h ev dat has_cb) r i of
        (Inl e, i1) \<Rightarrow> (Inl e, i1)
      | (Inr v, i1) \<Rightarrow> if retval_truthy v then io_emit ev v i1 else (Inr (), i1))"

definition todo ::
  "app \<Rightarrow> io \<Rightarrow> json \<Rightarrow> request \<Rightarrow> handler \<Rightarrow> (exn + unit) \<times> request \<times> io" where
  "todo self i payload r h =
     (case (py_get payload ''event'', py_get payload ''data'', py_get payload ''callback'') of
        (Inr ev, Inr dat, Inr cb) \<Rightarrow>
          let r' = (if truthy cb then r\<lparr>item_event := Some ev, item_callback := Some cb\<rparr> else r)
          in (case todo_try self i ev dat (truthy cb) r' h of
                (Inr u, i1) \<Rightarrow> (Inr (), r', i1)
              | (Inl e, i1) \<Rightarrow>
                  if is_Exception e then
                    (case io_emit (JStr ''error'') (error_frame e) i1 of
                       (res, i2) \<Rightarrow> (res, r', i2))
                  else (Inl e, r', i1))
      | _ \<Rightarrow> (Inl (Exception ''object has no attribute get''), r, i))"

text \<open>
  The body of \<open>async for msg in ws\<close> over the messages the websocket yields. The
  loop ends when the iterator stops, when the iterator raises, or when an exception
  leaves the body. \<open>Stops b\<close>: the iterator stops, and \<open>b\<close> says whether the
  websocket is closed by then (it is after the peer's close message).
\<close>

datatype ending = Stops bool | Raises exn

definition unexpected :: "exn \<Rightarrow> retval" where
  "unexpected e =
     Plain (JObj [(''message'', JStr ''An unexpected error occurred''),
                  (''error'', JStr (str_exn e))])"

fun receive_loop ::
  "app \<Rightarrow> handler \<Rightarrow> ws_msg list \<Rightarrow> ending \<Rightarrow> request \<Rightarrow> io \<Rightarrow> (exn + unit) \<times> request \<times> io" where
  "receive_loop self h [] fin r i =
     (case fin of
        Stops b \<Rightarrow> (Inr (), r, i\<lparr>io_ws := (io_ws i)\<lparr>ws_closed := ws_closed (io_ws i) \<or> b\<rparr>\<rparr>)
      | Raises e \<Rightarrow> (Inl e, r, i))"
| "receive_loop self h (Text None # ms) fin r i =
     (case io_emit (JStr ''error'')
             (Plain (JObj [(''message'', JStr ''Invalid JSON format'')])) i of
        (Inl e, i1) \<Rightarrow> (Inl e, r, i1)
      | (Inr u, i1) \<Rightarrow> receive_loop self h ms fin r i1)"
| "receive_loop self h (Text (Some payload) # ms) fin r i =
     (case todo self i payload r h of
        (Inr u, r1, i1) \<Rightarrow> receive_loop self h ms fin r1 i1
      | (Inl e, r1, i1) \<Rightarrow>
          if is_Exception e then
            (case io_emit (JStr ''error'') (unexpected e) i1 of
               (Inl e', i2) \<Rightarrow> (Inl e', r1, i2)
             | (Inr u, i2) \<Rightarrow> receive_loop self h ms fin r1 i2)
          else (Inl e, r1, i1))"
| "receive_loop self h (m # ms) fin r i = receive_loop self h ms fin r i"

text \<open>
  \<open>init_websocket\<close>. \<open>kw_id\<close> is the keyword argument \<open>id\<close>, \<open>rand_id\<close> what
  \<open>utils.randomStr(10, is_digits=True)\<close> returns, \<open>faults\<close> and \<open>close_fault\<close> what
  the new websocket's sends and its \<open>close()\<close> will do. The result is the response
  returned, or the exception raised. In the \<open>finally\<close> block the websocket is closed
  first, if it is not closed yet, and the id is popped after that: when \<open>close()\<close>
  raises, the pop is not reached.
\<close>

datatype response = BadRequest | Upgraded

definition init_websocket ::
  "app \<Rightarrow> request \<Rightarrow> handler \<Rightarrow> string option \<Rightarrow> string \<Rightarrow> exn option list \<Rightarrow> exn option
     \<Rightarrow> ws_msg list \<Rightarrow> ending \<Rightarrow> (exn + response) \<times> app" where
  "init_websocket self req h kw_id rand_id faults close_fault ms fin =
     (let ident = (case kw_id of None \<Rightarrow> rand_id | Some k \<Rightarrow> k);
          a = next_obj self;
          i = \<lparr>io_ws = \<lparr>ws_closed = False, ws_sent = [], ws_faults = faults,
                        ws_close_fault = close_fault\<rparr>,
               io_id = ident\<rparr>;
          self1 = self\<lparr>socket_clients := dict_set ident a (socket_clients self),
                      objects := (objects self)(a \<mapsto> i),
                      next_obj := a + 1\<rparr>
      in if \<not> can_prepare req then (Inr BadRequest, self1)
         else
           case prepare_raises req of
             Some e \<Rightarrow> (Inl e, self1)
           | None \<Rightarrow>
               (case receive_loop self1 h ms fin req i of
                  (res, req', i') \<Rightarrow>
                    (case (if ws_closed (io_ws i') then (Inr (), io_ws i')
                           else ws_close (io_ws i')) of
                       (Inl e, t') \<Rightarrow>
                         (Inl e, self1\<lparr>objects := (objects self1)(a \<mapsto> i'\<lparr>io_ws := t'\<rparr>)\<rparr>)
                     | (Inr u, t') \<Rightarrow>
                         ((case res of Inl e \<Rightarrow> Inl e | Inr u \<Rightarrow> Inr Upgraded),
                          self1\<lparr>objects := (objects self1)(a \<mapsto> i'\<lparr>io_ws := t'\<rparr>),
                                socket_clients := dict_pop ident (socket_clients self1)\<rparr>))))"

text \<open>
  \<open>_socket_clients\<close> is a \<open>weakref.WeakValueDictionary\<close>: once nothing else refers to
  an \<open>IO\<close> object, the object is reclaimed and its entry leaves the registry.
\<close>

definition reclaim :: "nat \<Rightarrow> app \<Rightarrow> app" where
  "reclaim a self =
     self\<lparr>socket_clients := filter (\<lambda>kv. snd kv \<noteq> a) (socket_clients self),
          objects := (objects self)(a := None)\<rparr>"

text \<open>
  \<open>broadcast\<close>: the list of the registry's values that pass the filter is built
  first; then \<open>io.emit\<close> is awaited on each, with no \<open>try\<close> around it.
\<close>

definition matched :: "(io \<Rightarrow> bool) option \<Rightarrow> app \<Rightarrow> nat list" where
  "matched flt self =
     filter (\<lambda>a. case objects self a of
                   None \<Rightarrow> False
                 | Some i \<Rightarrow> (case flt of None \<Rightarrow> True | Some p \<Rightarrow> p i))
       (map snd (socket_clients self))"

fun emit_each :: "json \<Rightarrow> retval \<Rightarrow> nat list \<Rightarrow> app \<Rightarrow> (exn + unit) \<times> app" where
  "emit_each ev v [] self = (Inr (), self)"
| "emit_each ev v (a # as) self =
     (case objects self a of
        None \<Rightarrow> emit_each ev v as self
      | Some i \<Rightarrow>
          (case io_emit ev v i of
             (Inl e, i') \<Rightarrow> (Inl e, self\<lparr>objects := (objects self)(a \<mapsto> i')\<rparr>)
           | (Inr u, i') \<Rightarrow> emit_each ev v as (self\<lparr>objects := (objects self)(a \<mapsto> i')\<rparr>)))"

definition broadcast ::
  "string \<Rightarrow> retval \<Rightarrow> (io \<Rightarrow> bool) option \<Rightarrow> app \<Rightarrow> (exn + unit) \<times> app" where
  "broadcast ev v flt self = emit_each (JStr ev) v (matched flt self) self"

section \<open>Example states\<close>

text \<open>Concrete clients, frames and servers on which the theorems below are run.\<close>

definition open_ws :: transport where
  "open_ws = \<lparr>ws_closed = False, ws_sent = [], ws_faults = [], ws_close_fault = None\<rparr>"

definition broken_ws :: transport where
  "broken_ws = \<lparr>ws_closed = False, ws_sent = [], ws_faults = [Some (Exception ''reset'')],
                 ws_close_fault = None\<rparr>"

definition demo_client :: client where
  "demo_client =
     \<lparr>listener = [], ws = Some open_ws, session = Some False, status_listeners = [],
      running = True, sessions_made = 1\<rparr>"

definition offline_client :: client where
  "offline_client = demo_client\<lparr>ws := None\<rparr>"

definition returns :: behaviour where
  "returns f d c = (Inr (), c)"

definition raises :: behaviour where
  "raises f d c = (Inl (Exception ''boom''), c)"

definition idle_hooks :: hooks where
  "idle_hooks =
     \<lparr>call_handler = returns,
      call_status = (\<lambda>l up err c. (Inr (), c)),
      after_connect = (\<lambda>c. (Inr (), c))\<rparr>"

definition reply_frame :: "string \<Rightarrow> json \<Rightarrow> string \<Rightarrow> json" where
  "reply_frame ev d tok = JObj [(''event'', JStr ev), (''data'', d), (''callback'', JStr tok)]"

text \<open>\<open>on("e", 2)\<close>, then \<open>emit("e", None, 1)\<close>: one persistent listener, one pending reply.\<close>

definition waiting_client :: client where
  "waiting_client = snd (emit ''e'' JNull (Some 1) (on ''e'' 2 demo_client))"

text \<open>
  Two requests on \<open>"e"\<close>, the reply to the first of them, and a third request.
\<close>

definition two_pending :: client where
  "two_pending = snd (emit ''e'' JNull (Some 2) (snd (emit ''e'' JNull (Some 1) demo_client)))"

definition one_answered :: client where
  "one_answered =
     snd (snd (handle_message returns (Some (reply_frame ''e'' JNull ''e_ask_0'')) two_pending))"

definition third_request :: "(exn + bool) \<times> client" where
  "third_request = emit ''e'' JNull (Some 3) one_answered"

text \<open>
  A client with a persistent listener on \<open>"news"\<close>, and one with a listener under the
  empty key.
\<close>

definition news_client :: client where
  "news_client = on ''news'' 1 demo_client"

definition blank_client :: client where
  "blank_client = on [] 1 demo_client"

text \<open>A handler that replies \<open>"hi-back"\<close> through \<open>ask\<close> and returns the given value.\<close>

definition echo_handler :: "retval \<Rightarrow> handler" where
  "echo_handler y ev dat has_cb = Ask (JStr ''hi-back'') (\<lambda>res. Return y)"

definition no_app :: app where
  "no_app = \<lparr>socket_clients = [], objects = (\<lambda>a. None), next_obj = 0,
             event_handler = (\<lambda>ev. None)\<rparr>"

definition plain_request :: request where
  "plain_request = \<lparr>can_prepare = False, prepare_raises = None,
                    item_event = None, item_callback = None\<rparr>"

definition upgrade_request :: request where
  "upgrade_request = plain_request\<lparr>can_prepare := True\<rparr>"

text \<open>A server with one live connection, registered under the id \<open>"7"\<close>.\<close>

definition one_app :: app where
  "one_app = no_app\<lparr>socket_clients := [(''7'', 0)],
                    objects := (\<lambda>a. None)(0 \<mapsto> \<lparr>io_ws = open_ws, io_id = ''7''\<rparr>),
                    next_obj := 1\<rparr>"

text \<open>A server with three live connections; the second one's next send raises.\<close>

definition three_app :: app where
  "three_app =
     no_app\<lparr>socket_clients := [(''a'', 0), (''b'', 1), (''c'', 2)],
            objects := (\<lambda>a. None)(0 \<mapsto> \<lparr>io_ws = open_ws, io_id = ''a''\<rparr>,
                                    1 \<mapsto> \<lparr>io_ws = broken_ws, io_id = ''b''\<rparr>,
                                    2 \<mapsto> \<lparr>io_ws = open_ws, io_id = ''c''\<rparr>),
            next_obj := 3\<rparr>"

text \<open>
  A client as \<open>__init__\<close> leaves it, and a run of the application on it: \<open>connect\<close>
  is called and the server refuses; while that call sleeps before its next attempt, the
  application calls \<open>close\<close> and then \<open>connect\<close> again, and the server accepts; the
  sleep of the first call ends, and the server accepts its attempt too.
\<close>

definition fresh_client :: client where
  "fresh_client =
     \<lparr>listener = [], ws = None, session = None, status_listeners = [],
      running = False, sessions_made = 0\<rparr>"

definition restart_schedule :: "action list" where
  "restart_schedule =
     [CallConnect, WsConnect 0 (Refused (NetError ''refused'')), CallClose,
      CallConnect, WsConnect 1 (Accepted open_ws), Wake 0, WsConnect 0 (Accepted open_ws)]"

text \<open>
  The frame \<open>{"event": "echo", "data": "hi", "callback": "echo_ask_0"}\<close> and server
  connections it may arrive on: an open one, one whose second send raises, and a closed
  one, on which every send raises.
\<close>

definition echo_frame :: json where
  "echo_frame = reply_frame ''echo'' (JStr ''hi'') ''echo_ask_0''"

definition open_io :: io where
  "open_io = \<lparr>io_ws = open_ws, io_id = ''7''\<rparr>"

definition flaky_io :: io where
  "flaky_io = \<lparr>io_ws = open_ws\<lparr>ws_faults := [None, Some (Exception ''reset'')]\<rparr>, io_id = ''7''\<rparr>"

definition closed_io :: io where
  "closed_io =
     \<lparr>io_ws = open_ws\<lparr>ws_closed := True,
                       ws_faults := [Some (Exception ''closing''), Some (Exception ''closing'')]\<rparr>,
      io_id = ''7''\<rparr>"

section \<open>Helper lemmas\<close>

lemma map_of_dict_set: "map_of (dict_set k v d) = (map_of d)(k \<mapsto> v)"
  by (induction d) (auto simp: fun_eq_iff)

lemma map_of_dict_pop: "map_of (dict_pop k d) = (map_of d)(k := None)"
  by (induction d) (auto simp: dict_pop_def fun_eq_iff)

lemma str_nat_small: "n < 10 \<Longrightarrow> str_nat n = [digit n]"
  by (subst str_nat.simps) simp

lemma digit_0: "digit 0 = CHR ''0''"
  by (simp add: digit_def)

lemma digit_1: "digit (Suc 0) = CHR ''1''"
  by (simp add: digit_def)

lemmas emit_eval =
  emit_def ask_token_def send_json_def on_def Let_def str_nat_small digit_0 digit_1

lemmas handle_eval =
  handle_message_def by_event_def call_listener_def un_def dict_pop_def reply_frame_def

lemmas demo_eval =
  demo_client_def open_ws_def broken_ws_def returns_def raises_def

lemma ask_token_nonempty: "ask_token ev l \<noteq> []"
  by (simp add: ask_token_def Let_def)

lemma py_get_obj: "py_get p k = Inr v \<Longrightarrow> \<exists>kvs. p = JObj kvs"
  by (cases p) auto

lemma by_event_calls:
  "fst (snd (by_event beh ev d c)) =
     (case dict_find ev (listener c) of Inr (Some (k, g)) \<Rightarrow> [(g, d)] | _ \<Rightarrow> [])"
  by (auto simp: by_event_def call_listener_def split: sum.splits option.splits prod.splits)

lemma handle_callback_hit:
  assumes "map_of (listener c) T = Some h" "T \<noteq> []"
    "py_get p ''callback'' = Inr (JStr T)" "py_get p ''data'' = Inr d"
    "beh h d c = (Inr (), c1)"
  shows "handle_message beh (Some p) c = (Inr (), [(h, d)], un T c1)"
proof -
  from assms(3) obtain kvs where "p = JObj kvs" by (auto dest: py_get_obj)
  then obtain ev where "py_get p ''event'' = Inr ev" by simp
  with assms show ?thesis
    by (simp add: handle_message_def call_listener_def)
qed

lemma handle_callback_calls:
  assumes "map_of (listener c) T = Some h" "T \<noteq> []"
    "py_get p ''callback'' = Inr (JStr T)" "py_get p ''data'' = Inr d"
  shows "fst (snd (handle_message beh (Some p) c)) = [(h, d)]"
proof -
  from assms(3) obtain kvs where "p = JObj kvs" by (auto dest: py_get_obj)
  then obtain ev where "py_get p ''event'' = Inr ev" by simp
  with assms show ?thesis
    by (simp add: handle_message_def call_listener_def split: prod.splits sum.splits)
qed

lemma handle_callback_miss:
  assumes "map_of (listener c) T = None"
    "py_get p ''callback'' = Inr (JStr T)" "py_get p ''data'' = Inr d"
    "py_get p ''event'' = Inr ev"
  shows "handle_message beh (Some p) c = by_event beh ev d c"
  using assms by (simp add: handle_message_def)

lemma un_removes: "map_of (listener (un T c)) T = None"
  by (simp add: un_def map_of_dict_pop)

lemma send_json_ok:
  "sends_ok (Suc n) t \<Longrightarrow>
     \<exists>t'. send_json f t = (Inr (), t') \<and> ws_sent t' = ws_sent t @ [f]
        \<and> ws_closed t' = ws_closed t \<and> sends_ok n t'"
  by (cases "ws_faults t") (auto simp: send_json_def sends_ok_def split: option.splits)

lemma io_emit_ok:
  "sends_ok (Suc 0) (io_ws i) \<Longrightarrow>
     \<exists>i'. io_emit ev v i = (Inr (), i')
        \<and> ws_sent (io_ws i') =
            ws_sent (io_ws i) @ [\<lparr>f_event = ev, f_data = wire_data v, f_callback = None\<rparr>]"
  using send_json_ok [of 0 "io_ws i" "\<lparr>f_event = ev, f_data = wire_data v, f_callback = None\<rparr>"]
  by (auto simp: io_emit_def)

lemma io_emit_raises:
  "ws_faults (io_ws i) = Some e # rest \<Longrightarrow>
     \<exists>i'. io_emit ev v i = (Inl e, i') \<and> ws_sent (io_ws i') = ws_sent (io_ws i)"
  by (auto simp: io_emit_def send_json_def)

lemma emit_each_elsewhere:
  "p \<notin> set xs \<Longrightarrow> objects (snd (emit_each ev v xs t)) p = objects t p"
  by (induction xs arbitrary: t) (auto split: option.splits sum.splits prod.splits)

lemma emit_each_stops:
  assumes "distinct (pre @ a # post)"
      and "\<forall>x\<in>set pre. \<exists>i. objects s x = Some i \<and> sends_ok (Suc 0) (io_ws i)"
      and "objects s a = Some ia" "ws_faults (io_ws ia) = Some e # rest"
  shows "fst (emit_each ev v (pre @ a # post) s) = Inl e
       \<and> (\<forall>x\<in>set post. objects (snd (emit_each ev v (pre @ a # post) s)) x = objects s x)
       \<and> (\<forall>x\<in>set pre. \<exists>i i'. objects s x = Some i
              \<and> objects (snd (emit_each ev v (pre @ a # post) s)) x = Some i'
              \<and> ws_sent (io_ws i') =
                  ws_sent (io_ws i) @ [\<lparr>f_event = ev, f_data = wire_data v, f_callback = None\<rparr>])"
  using assms
proof (induction pre arbitrary: s)
  case Nil
  obtain i' where "io_emit ev v ia = (Inl e, i')"
    using io_emit_raises [OF Nil.prems(4)] by blast
  with Nil.prems show ?case by auto
next
  case (Cons p pre)
  let ?f = "\<lparr>f_event = ev, f_data = wire_data v, f_callback = None\<rparr>"
  from Cons.prems(2) obtain ip where ip: "objects s p = Some ip" "sends_ok (Suc 0) (io_ws ip)"
    by auto
  obtain ip' where ip': "io_emit ev v ip = (Inr (), ip')"
      "ws_sent (io_ws ip') = ws_sent (io_ws ip) @ [?f]"
    using io_emit_ok [OF ip(2)] by blast
  let ?s = "s\<lparr>objects := (objects s)(p \<mapsto> ip')\<rparr>"
  have step: "emit_each ev v ((p # pre) @ a # post) s = emit_each ev v (pre @ a # post) ?s"
    using ip(1) ip'(1) by simp
  have d: "distinct (pre @ a # post)" "p \<notin> set pre" "p \<noteq> a" "p \<notin> set post"
    using Cons.prems(1) by auto
  have pre_ok: "\<forall>x\<in>set pre. \<exists>i. objects ?s x = Some i \<and> sends_ok (Suc 0) (io_ws i)"
    using Cons.prems(2) d(2) by auto
  have a_ok: "objects ?s a = Some ia"
    using Cons.prems(3) d(3) by simp
  note IH = Cons.IH [OF d(1) pre_ok a_ok Cons.prems(4)]
  let ?s' = "snd (emit_each ev v (pre @ a # post) ?s)"
  have kept: "objects ?s' p = Some ip'"
    using emit_each_elsewhere [of p "pre @ a # post" ev v ?s] d by simp
  have r1: "fst (emit_each ev v (pre @ a # post) ?s) = Inl e"
    using IH by blast
  have r2: "\<forall>x\<in>set post. objects ?s' x = objects s x"
  proof
    fix x assume x: "x \<in> set post"
    then have "x \<noteq> p" using d(4) by auto
    moreover have "objects ?s' x = objects ?s x" using IH x by blast
    ultimately show "objects ?s' x = objects s x" by simp
  qed
  have r3: "\<forall>x\<in>set (p # pre). \<exists>i i'. objects s x = Some i \<and> objects ?s' x = Some i'
              \<and> ws_sent (io_ws i') = ws_sent (io_ws i) @ [?f]"
  proof
    fix x assume x: "x \<in> set (p # pre)"
    show "\<exists>i i'. objects s x = Some i \<and> objects ?s' x = Some i'
              \<and> ws_sent (io_ws i') = ws_sent (io_ws i) @ [?f]"
    proof (cases "x = p")
      case True
      then show ?thesis using ip(1) ip'(2) kept by simp
    next
      case False
      then have xin: "x \<in> set pre" using x by simp
      from IH xin obtain i i' where "objects ?s x = Some i" "objects ?s' x = Some i'"
          "ws_sent (io_ws i') = ws_sent (io_ws i) @ [?f]" by blast
      then show ?thesis using False by simp
    qed
  qed
  show ?case
    unfolding step using r1 r2 r3 by blast
qed

section \<open>The client's correlation tokens\<close>

text \<open>
  C1. The claim: the token \<open>emit\<close> generates is not a key of the listener registry, so
  registering the callback under it replaces nothing, and outstanding requests have
  distinct tokens. The code counts the registered keys with the prefix, so after a reply
  has removed one of two pending entries the count names the other. Two requests on
  \<open>"e"\<close> get \<open>e_ask_0\<close> and \<open>e_ask_1\<close>; the reply to the first arrives; a third
  request gets \<open>e_ask_1\<close> again: the pending callback 2 is replaced by callback 3 and
  two outstanding requests carry the same token.
\<close>

theorem emit_token_collision:
  "listener two_pending = [(''e_ask_0'', 1), (''e_ask_1'', 2)]
   \<and> listener one_answered = [(''e_ask_1'', 2)]
   \<and> fst third_request = Inr True
   \<and> listener (snd third_request) = [(''e_ask_1'', 3)]
   \<and> map_option (\<lambda>t. map f_callback (ws_sent t)) (ws (snd third_request))
       = Some [Some (JStr ''e_ask_0''), Some (JStr ''e_ask_1''), Some (JStr ''e_ask_1'')]"
  by (simp add: emit_eval handle_eval demo_eval two_pending_def one_answered_def third_request_def)

text \<open>
  C7. \<open>emit\<close> on a client that is not connected returns \<open>False\<close> and leaves the
  client as it was: no frame is written to any websocket and the listener registry is
  unchanged, whether or not a callback is given.
\<close>

theorem emit_not_connected:
  "\<not> connected c \<Longrightarrow> emit ev dat cb c = (Inr False, c)"
  by (auto simp: connected_def emit_def split: option.splits)

theorem emit_not_connected_witness:
  "\<not> connected offline_client
   \<and> emit ''chat'' (JStr ''hi'') (Some 1) offline_client = (Inr False, offline_client)"
  using emit_not_connected [of offline_client "''chat''" "JStr ''hi''" "Some 1"]
  by (simp add: connected_def offline_client_def)

text \<open>
  C10. \<open>emit\<close> on a connected client with a callback, when \<open>send_json\<close> raises an
  \<open>Exception\<close>: \<open>emit\<close> returns \<open>False\<close>, nothing has been written, and the callback
  stays registered under the token generated for it.
\<close>

theorem emit_send_failure_keeps_callback:
  assumes "ws c = Some t" "\<not> ws_closed t" "ws_faults t = Some e # rest" "is_Exception e"
  shows "fst (emit ev dat (Some f) c) = Inr False
       \<and> map_of (listener (snd (emit ev dat (Some f) c))) (ask_token ev (listener c)) = Some f
       \<and> map_option ws_sent (ws (snd (emit ev dat (Some f) c))) = Some (ws_sent t)"
  using assms by (simp add: emit_def send_json_def Let_def on_def map_of_dict_set)

theorem emit_send_failure_keeps_callback_witness:
  "fst (emit ''e'' JNull (Some 7) (demo_client\<lparr>ws := Some broken_ws\<rparr>)) = Inr False
   \<and> map_of (listener (snd (emit ''e'' JNull (Some 7) (demo_client\<lparr>ws := Some broken_ws\<rparr>))))
        ''e_ask_0'' = Some 7
   \<and> map_option ws_sent (ws (snd (emit ''e'' JNull (Some 7) (demo_client\<lparr>ws := Some broken_ws\<rparr>))))
        = Some []"
  using emit_send_failure_keeps_callback
    [of "demo_client\<lparr>ws := Some broken_ws\<rparr>" broken_ws "Exception ''reset''" "[]" "''e''" JNull 7]
  by (simp add: demo_client_def broken_ws_def ask_token_def str_nat_small digit_0)

section \<open>One-shot and persistent listeners\<close>

text \<open>
  C2, as the code has it. Let \<open>T\<close> be a token made by \<open>emit\<close> and registered with
  handler \<open>h\<close>. A first frame carrying \<open>callback = T\<close> calls \<open>h\<close> once, with the
  frame's data, and no other listener. If \<open>h\<close> returns without raising, the
  registration of \<open>T\<close> is then removed, and a second frame carrying \<open>callback = T\<close>
  does not find \<open>T\<close>: it is routed by its \<open>event\<close> field, so the listener registered
  under that event is called, and only when there is none is the frame dropped.
\<close>

theorem one_shot_then_by_event:
  assumes "map_of (listener c) T = Some h" "T = ask_token ev0 l0"
      and "py_get p1 ''callback'' = Inr (JStr T)" "py_get p1 ''data'' = Inr d1"
      and "py_get p2 ''callback'' = Inr (JStr T)" "py_get p2 ''data'' = Inr d2"
      and "py_get p2 ''event'' = Inr ev2"
  shows "fst (snd (handle_message beh (Some p1) c)) = [(h, d1)]
       \<and> (\<forall>c1. beh h d1 c = (Inr (), c1) \<longrightarrow>
              handle_message beh (Some p1) c = (Inr (), [(h, d1)], un T c1)
            \<and> map_of (listener (un T c1)) T = None
            \<and> fst (snd (handle_message beh (Some p2) (un T c1))) =
                (case dict_find ev2 (listener (un T c1)) of
                   Inr (Some (k, g)) \<Rightarrow> [(g, d2)]
                 | _ \<Rightarrow> []))"
proof -
  have T: "T \<noteq> []"
    using assms(2) by (simp add: ask_token_nonempty)
  have once: "fst (snd (handle_message beh (Some p1) c)) = [(h, d1)]"
    using assms(1) T assms(3,4) by (rule handle_callback_calls)
  have rest: "handle_message beh (Some p1) c = (Inr (), [(h, d1)], un T c1)
            \<and> map_of (listener (un T c1)) T = None
            \<and> fst (snd (handle_message beh (Some p2) (un T c1))) =
                (case dict_find ev2 (listener (un T c1)) of
                   Inr (Some (k, g)) \<Rightarrow> [(g, d2)]
                 | _ \<Rightarrow> [])"
    if ret: "beh h d1 c = (Inr (), c1)" for c1
  proof -
    have first: "handle_message beh (Some p1) c = (Inr (), [(h, d1)], un T c1)"
      using assms(1) T assms(3,4) ret by (rule handle_callback_hit)
    have gone: "map_of (listener (un T c1)) T = None"
      by (rule un_removes)
    have "handle_message beh (Some p2) (un T c1) = by_event beh ev2 d2 (un T c1)"
      using gone assms(5-7) by (rule handle_callback_miss)
    then show ?thesis using first gone by (simp add: by_event_calls)
  qed
  show ?thesis using once rest by blast
qed

theorem one_shot_then_by_event_witness:
  "fst (snd (handle_message returns (Some (reply_frame ''e'' (JNum 5) ''e_ask_0'')) waiting_client))
     = [(1, JNum 5)]
   \<and> handle_message returns (Some (reply_frame ''e'' (JNum 5) ''e_ask_0'')) waiting_client
     = (Inr (), [(1, JNum 5)], un ''e_ask_0'' waiting_client)
   \<and> map_of (listener (un ''e_ask_0'' waiting_client)) ''e_ask_0'' = None
   \<and> fst (snd (handle_message returns (Some (reply_frame ''e'' (JNum 6) ''e_ask_0''))
        (un ''e_ask_0'' waiting_client))) = [(2, JNum 6)]"
proof -
  have reg: "map_of (listener waiting_client) ''e_ask_0'' = Some 1"
    by (simp add: emit_eval demo_eval waiting_client_def)
  have tok: "''e_ask_0'' = ask_token ''e'' [(''e'', 2)]"
    by (simp add: ask_token_def str_nat_small digit_0)
  have ret: "returns 1 (JNum 5) waiting_client = (Inr (), waiting_client)"
    by (simp add: returns_def)
  have ev: "dict_find (JStr ''e'') (listener (un ''e_ask_0'' waiting_client)) = Inr (Some (''e'', 2))"
    by (simp add: emit_eval demo_eval waiting_client_def un_def dict_pop_def)
  from one_shot_then_by_event
    [OF reg tok, of "reply_frame ''e'' (JNum 5) ''e_ask_0''" "JNum 5"
       "reply_frame ''e'' (JNum 6) ''e_ask_0''" "JNum 6" "JStr ''e''" returns]
  show ?thesis using ret ev by (simp add: reply_frame_def)
qed

text \<open>
  The claim as stated fails: with a persistent listener (2) on \<open>"e"\<close> and a pending
  reply (1) under \<open>e_ask_0\<close>, the first frame with \<open>callback = e_ask_0\<close> calls 1, and
  a second frame with the same callback and \<open>event = "e"\<close> calls 2. And when the
  handler of the first frame raises, the exception is logged and the registration stays.
\<close>

theorem second_frame_fires_event_listener:
  "fst (snd (handle_message returns (Some (reply_frame ''e'' (JNum 5) ''e_ask_0'')) waiting_client))
     = [(1, JNum 5)]
   \<and> fst (snd (handle_message returns (Some (reply_frame ''e'' (JNum 5) ''e_ask_0''))
        (snd (snd (handle_message returns (Some (reply_frame ''e'' (JNum 5) ''e_ask_0''))
           waiting_client)))))
     = [(2, JNum 5)]
   \<and> handle_message raises (Some (reply_frame ''e'' (JNum 5) ''e_ask_0'')) waiting_client
     = (Inr (), [(1, JNum 5)], waiting_client)
   \<and> listener waiting_client = [(''e'', 2), (''e_ask_0'', 1)]"
  by (simp add: emit_eval handle_eval demo_eval waiting_client_def)

text \<open>
  C9, as the code has it. A key \<open>T\<close> (a non-empty string) registered with \<open>on\<close> is
  treated like a pending reply: a frame carrying \<open>callback = T\<close> calls its handler with
  the frame's data and, if the handler returns without raising, removes the key, so that
  a later frame with \<open>event = T\<close> and no callback finds no listener.
\<close>

theorem callback_frame_unregisters_listener:
  assumes "T \<noteq> []"
      and "py_get p ''callback'' = Inr (JStr T)" "py_get p ''data'' = Inr d"
      and "beh h d (on T h c) = (Inr (), c1)"
  shows "handle_message beh (Some p) (on T h c) = (Inr (), [(h, d)], un T c1)
       \<and> map_of (listener (un T c1)) T = None
       \<and> handle_message beh (Some (JObj [(''event'', JStr T), (''data'', d')])) (un T c1)
           = (Inr (), [], un T c1)"
proof -
  have reg: "map_of (listener (on T h c)) T = Some h"
    by (simp add: on_def map_of_dict_set)
  have hit: "handle_message beh (Some p) (on T h c) = (Inr (), [(h, d)], un T c1)"
    using reg assms by (rule handle_callback_hit)
  have gone: "map_of (listener (un T c1)) T = None"
    by (rule un_removes)
  have "handle_message beh (Some (JObj [(''event'', JStr T), (''data'', d')])) (un T c1)
          = (Inr (), [], un T c1)"
    using gone by (simp add: handle_message_def by_event_def)
  then show ?thesis using hit gone by simp
qed

theorem callback_frame_unregisters_listener_witness:
  "handle_message returns (Some (reply_frame ''x'' (JNum 5) ''news'')) news_client
     = (Inr (), [(1, JNum 5)], un ''news'' news_client)
   \<and> map_of (listener (un ''news'' news_client)) ''news'' = None
   \<and> handle_message returns (Some (JObj [(''event'', JStr ''news''), (''data'', JNull)]))
        (un ''news'' news_client) = (Inr (), [], un ''news'' news_client)"
  using callback_frame_unregisters_listener
    [of "''news''" "reply_frame ''x'' (JNum 5) ''news''" "JNum 5" returns 1 demo_client
        "on ''news'' 1 demo_client" JNull]
  by (simp add: news_client_def returns_def reply_frame_def)

text \<open>
  The claim as stated fails in two places. When the handler raises, the exception is
  logged and the key stays registered; and a listener registered under the empty string
  is not found by a frame with \<open>callback = ""\<close>, since the empty string is false.
\<close>

theorem callback_hit_not_removed:
  "handle_message raises (Some (reply_frame ''x'' (JNum 5) ''news'')) news_client
     = (Inr (), [(1, JNum 5)], news_client)
   \<and> listener news_client = [(''news'', 1)]
   \<and> handle_message returns (Some (reply_frame ''x'' (JNum 5) [])) blank_client
     = (Inr (), [], blank_client)
   \<and> listener blank_client = [([], 1)]"
  by (simp add: handle_eval demo_eval news_client_def blank_client_def on_def)

section \<open>Starting a client twice\<close>

lemma connect_while_running: "running c \<Longrightarrow> connect c = (Returned, c)"
  by (simp add: connect_def)

text \<open>
  C8. The claim: \<open>connect\<close> on a running client does nothing, so at most one receive
  loop is ever active per client. The guard is there (\<open>connect_while_running\<close>), but
  a call of \<open>connect\<close> that sleeps between two attempts tests only the flag when it
  wakes up. On \<open>restart_schedule\<close> the first call sleeps after a refused attempt,
  \<open>close\<close> clears the flag, the second \<open>connect\<close> passes the guard, sets the flag
  and starts to receive; the first call wakes up, finds the flag set and connects as
  well. Both calls are then in the receive loop of \<open>listen_messages\<close> on the one
  client, which has made two sessions.
\<close>

theorem second_receive_loop:
  "tasks (run idle_hooks (take 2 restart_schedule) \<lparr>shared = fresh_client, tasks = []\<rparr>)
     = [Sleeping]
   \<and> running (shared (run idle_hooks (take 3 restart_schedule)
        \<lparr>shared = fresh_client, tasks = []\<rparr>)) = False
   \<and> tasks (run idle_hooks (take 5 restart_schedule) \<lparr>shared = fresh_client, tasks = []\<rparr>)
     = [Sleeping, Receiving]
   \<and> tasks (run idle_hooks restart_schedule \<lparr>shared = fresh_client, tasks = []\<rparr>)
     = [Receiving, Receiving]
   \<and> receive_loops (run idle_hooks restart_schedule \<lparr>shared = fresh_client, tasks = []\<rparr>) = 2
   \<and> sessions_made (shared (run idle_hooks restart_schedule
        \<lparr>shared = fresh_client, tasks = []\<rparr>)) = 2"
  by (simp add: run_def restart_schedule_def fresh_client_def idle_hooks_def returns_def
      resume_def connect_def loop_test_def ws_connected_def attempt_except_def round_end_def
      notify_status_change_def woken_def close_def receive_loops_def open_ws_def Let_def)

section \<open>The server's dispatch\<close>

text \<open>
  C3, as the code has it. An inbound frame carries a callback token (a \<open>callback\<close>
  field that is true in Python's sense), the websocket is open and its next two sends
  succeed; the handler awaits \<open>ask\<close> with \<open>X\<close> and then returns \<open>Y\<close>. Then the
  frame with the original event, \<open>data = X\<close> and the original token as \<open>callback\<close>
  is written, and, exactly when \<open>Y\<close> is true (not \<open>None\<close>, \<open>False\<close>, zero or
  empty), a second frame with the original event, \<open>data = Y\<close> (the \<open>json\<close> of \<open>Y\<close>
  when \<open>Y\<close> is a \<open>Result\<close>) and no \<open>callback\<close>: two frames for a true \<open>Y\<close>, one
  for a false \<open>Y\<close>.
\<close>

theorem todo_reply_and_return:
  assumes p: "py_get payload ''event'' = Inr ev" "py_get payload ''data'' = Inr dat"
             "py_get payload ''callback'' = Inr cb"
      and cb: "truthy cb"
      and h: "resolve self ev h ev dat True = Ask X k" "k None = Return Y"
      and t: "\<not> ws_closed (io_ws i)" "sends_ok 2 (io_ws i)"
  shows "fst (todo self i payload r h) = Inr ()
       \<and> ws_sent (io_ws (snd (snd (todo self i payload r h)))) =
           ws_sent (io_ws i) @
             \<lparr>f_event = ev, f_data = X, f_callback = Some cb\<rparr> #
             (if retval_truthy Y
              then [\<lparr>f_event = ev, f_data = wire_data Y, f_callback = None\<rparr>]
              else [])"
proof -
  let ?r = "r\<lparr>item_event := Some ev, item_callback := Some cb\<rparr>"
  let ?reply = "\<lparr>f_event = ev, f_data = X, f_callback = Some cb\<rparr>"
  let ?push = "\<lparr>f_event = ev, f_data = wire_data Y, f_callback = None\<rparr>"
  have two: "sends_ok (Suc (Suc 0)) (io_ws i)"
    using t(2) by (simp add: numeral_2_eq_2)
  obtain t1 where t1: "send_json ?reply (io_ws i) = (Inr (), t1)"
      "ws_sent t1 = ws_sent (io_ws i) @ [?reply]" "sends_ok (Suc 0) t1"
    using send_json_ok [OF two] by blast
  obtain t2 where t2: "send_json ?push t1 = (Inr (), t2)" "ws_sent t2 = ws_sent t1 @ [?push]"
    using send_json_ok [OF t1(3)] by blast
  have replied: "ask X i ?r = (Inr (), i\<lparr>io_ws := t1\<rparr>)"
    using t(1) t1(1) by (simp add: ask_def)
  have ran: "run_handler (Ask X k) ?r i = (Inr Y, i\<lparr>io_ws := t1\<rparr>)"
    using replied h(2) by simp
  show ?thesis
  proof (cases "retval_truthy Y")
    case True
    have body: "todo_try self i ev dat True ?r h = (Inr (), i\<lparr>io_ws := t2\<rparr>)"
      using ran h(1) True t2(1) by (simp add: todo_try_def io_emit_def)
    have "todo self i payload r h = (Inr (), ?r, i\<lparr>io_ws := t2\<rparr>)"
      using p cb body by (simp add: todo_def)
    then show ?thesis using True t1(2) t2(2) by simp
  next
    case False
    have body: "todo_try self i ev dat True ?r h = (Inr (), i\<lparr>io_ws := t1\<rparr>)"
      using ran h(1) False by (simp add: todo_try_def)
    have "todo self i payload r h = (Inr (), ?r, i\<lparr>io_ws := t1\<rparr>)"
      using p cb body by (simp add: todo_def)
    then show ?thesis using False t1(2) by simp
  qed
qed

theorem todo_reply_and_return_witness:
  "fst (todo no_app open_io echo_frame upgrade_request (echo_handler (Plain (JStr ''done''))))
     = Inr ()
   \<and> ws_sent (io_ws (snd (snd (todo no_app open_io echo_frame upgrade_request
          (echo_handler (Plain (JStr ''done''))))))) =
       [\<lparr>f_event = JStr ''echo'', f_data = JStr ''hi-back'',
          f_callback = Some (JStr ''echo_ask_0'')\<rparr>,
        \<lparr>f_event = JStr ''echo'', f_data = JStr ''done'', f_callback = None\<rparr>]"
  using todo_reply_and_return
    [of echo_frame "JStr ''echo''" "JStr ''hi''" "JStr ''echo_ask_0''" no_app
        "echo_handler (Plain (JStr ''done''))" "JStr ''hi-back''"
        "\<lambda>res. Return (Plain (JStr ''done''))" "Plain (JStr ''done'')" open_io upgrade_request]
  by (simp add: echo_frame_def reply_frame_def resolve_def no_app_def echo_handler_def
      open_io_def open_ws_def sends_ok_def)

text \<open>
  The claim as stated fails in each of these runs of a handler that replies
  \<open>"hi-back"\<close> through \<open>ask\<close> and then returns. It returns \<open>0\<close>: \<open>if value:\<close> is
  false, and only the reply is written. The second send raises: the reply is written,
  and the second frame is an \<open>error\<close> event, not the returned value. The websocket is
  closed: \<open>ask\<close> writes nothing, the send of the returned value raises and so does the
  send of the \<open>error\<close> event, and no frame is written. The \<open>callback\<close> field is the
  empty string: \<open>request["callback"]\<close> is not set, \<open>ask\<close> raises KeyError, and only
  the returned value is written.
\<close>

theorem reply_and_return_not_two_frames:
  "ws_sent (io_ws (snd (snd (todo no_app open_io echo_frame upgrade_request
        (echo_handler (Plain (JNum 0)))))))
     = [\<lparr>f_event = JStr ''echo'', f_data = JStr ''hi-back'',
          f_callback = Some (JStr ''echo_ask_0'')\<rparr>]
   \<and> ws_sent (io_ws (snd (snd (todo no_app flaky_io echo_frame upgrade_request
        (echo_handler (Plain (JStr ''done'')))))))
     = [\<lparr>f_event = JStr ''echo'', f_data = JStr ''hi-back'',
          f_callback = Some (JStr ''echo_ask_0'')\<rparr>,
        \<lparr>f_event = JStr ''error'', f_data = JObj [(''message'', JStr ''reset'')],
          f_callback = None\<rparr>]
   \<and> fst (todo no_app closed_io echo_frame upgrade_request (echo_handler (Plain (JStr ''done''))))
     = Inl (Exception ''closing'')
   \<and> ws_sent (io_ws (snd (snd (todo no_app closed_io echo_frame upgrade_request
        (echo_handler (Plain (JStr ''done'')))))))
     = []
   \<and> ws_sent (io_ws (snd (snd (todo no_app open_io (reply_frame ''echo'' (JStr ''hi'') [])
        upgrade_request (echo_handler (Plain (JStr ''done'')))))))
     = [\<lparr>f_event = JStr ''echo'', f_data = JStr ''done'', f_callback = None\<rparr>]"
  by (simp add: todo_def todo_try_def ask_def send_json_def io_emit_def echo_frame_def
      reply_frame_def resolve_def no_app_def echo_handler_def open_io_def flaky_io_def
      closed_io_def open_ws_def upgrade_request_def plain_request_def error_frame_def)

section \<open>Broadcast\<close>

text \<open>
  C4, as the code has it. \<open>broadcast\<close> sends to the matching connections in the
  registry's order with nothing catching a failure: when the send to one of them raises,
  \<open>broadcast\<close> raises that exception, the matching connections before it have each
  received the frame, and those after it are left as they were, with nothing sent.
\<close>

theorem broadcast_aborts_on_failure:
  assumes "distinct (map snd (socket_clients s))"
      and "matched flt s = pre @ a # post"
      and "\<forall>x\<in>set pre. \<exists>i. objects s x = Some i \<and> sends_ok (Suc 0) (io_ws i)"
      and "objects s a = Some ia" "ws_faults (io_ws ia) = Some e # rest"
  shows "fst (broadcast ev v flt s) = Inl e
       \<and> (\<forall>x\<in>set post. objects (snd (broadcast ev v flt s)) x = objects s x)
       \<and> (\<forall>x\<in>set pre. \<exists>i i'. objects s x = Some i
              \<and> objects (snd (broadcast ev v flt s)) x = Some i'
              \<and> ws_sent (io_ws i') =
                  ws_sent (io_ws i) @
                    [\<lparr>f_event = JStr ev, f_data = wire_data v, f_callback = None\<rparr>])"
proof -
  have "distinct (matched flt s)"
    using assms(1) by (simp add: matched_def)
  then have "distinct (pre @ a # post)" using assms(2) by simp
  from emit_each_stops [OF this assms(3,4,5)] show ?thesis
    by (simp add: broadcast_def assms(2))
qed

theorem broadcast_aborts_on_failure_witness:
  "fst (broadcast ''news'' (Plain (JNum 1)) None three_app) = Inl (Exception ''reset'')
   \<and> objects (snd (broadcast ''news'' (Plain (JNum 1)) None three_app)) 2 = objects three_app 2
   \<and> (\<exists>i'. objects (snd (broadcast ''news'' (Plain (JNum 1)) None three_app)) 0 = Some i'
          \<and> ws_sent (io_ws i') = [\<lparr>f_event = JStr ''news'', f_data = JNum 1, f_callback = None\<rparr>])"
  using broadcast_aborts_on_failure
    [of three_app None "[0]" 1 "[2]" "\<lparr>io_ws = broken_ws, io_id = ''b''\<rparr>" "Exception ''reset''" "[]"
        "''news''" "Plain (JNum 1)"]
  by (simp add: three_app_def no_app_def matched_def sends_ok_def open_ws_def broken_ws_def)

text \<open>
  The claim as stated fails on three connections with no filter, when the send to the
  second raises: the third, which matches, is sent nothing.
\<close>

theorem broadcast_failure_skips_rest:
  "fst (broadcast ''news'' (Plain (JNum 1)) None three_app) = Inl (Exception ''reset'')
   \<and> matched None three_app = [0, 1, 2]
   \<and> objects (snd (broadcast ''news'' (Plain (JNum 1)) None three_app)) 2
       = Some \<lparr>io_ws = \<lparr>ws_closed = False, ws_sent = [], ws_faults = [],
                        ws_close_fault = None\<rparr>,
               io_id = ''c''\<rparr>"
  by (simp add: broadcast_def matched_def three_app_def no_app_def io_emit_def send_json_def
      open_ws_def broken_ws_def)

section \<open>Registration and cleanup of a server connection\<close>

lemma send_json_close_fault:
  "send_json f t = (res, t') \<Longrightarrow> ws_close_fault t' = ws_close_fault t"
  by (auto simp: send_json_def split: list.splits option.splits)

lemma io_emit_close_fault:
  "io_emit ev v i = (res, i') \<Longrightarrow> ws_close_fault (io_ws i') = ws_close_fault (io_ws i)"
  by (auto simp: io_emit_def split: prod.splits dest: send_json_close_fault)

lemma ask_close_fault:
  "ask x i r = (res, i') \<Longrightarrow> ws_close_fault (io_ws i') = ws_close_fault (io_ws i)"
  by (auto simp: ask_def split: if_splits option.splits prod.splits dest: send_json_close_fault)

lemma run_handler_close_fault:
  "run_handler p r i = (res, i') \<Longrightarrow> ws_close_fault (io_ws i') = ws_close_fault (io_ws i)"
proof (induction p arbitrary: i)
  case (Ask x k)
  obtain ra ia where a: "ask x i r = (ra, ia)" by (cases "ask x i r")
  have kept: "ws_close_fault (io_ws ia) = ws_close_fault (io_ws i)"
    using a by (rule ask_close_fault)
  show ?case
  proof (cases ra)
    case (Inl e)
    then have "run_handler (k (Some e)) r ia = (res, i')" using Ask.prems a by simp
    from Ask.IH [OF rangeI this] kept show ?thesis by simp
  next
    case (Inr u)
    then have "run_handler (k None) r ia = (res, i')" using Ask.prems a by simp
    from Ask.IH [OF rangeI this] kept show ?thesis by simp
  qed
qed auto

lemma todo_try_close_fault:
  assumes "todo_try self i ev dat b r h = (res, i')"
  shows "ws_close_fault (io_ws i') = ws_close_fault (io_ws i)"
proof -
  obtain rr i1 where run: "run_handler (resolve self ev h ev dat b) r i = (rr, i1)"
    by (cases "run_handler (resolve self ev h ev dat b) r i")
  have k1: "ws_close_fault (io_ws i1) = ws_close_fault (io_ws i)"
    using run by (rule run_handler_close_fault)
  show ?thesis
  proof (cases rr)
    case (Inl e)
    then show ?thesis using assms run k1 by (simp add: todo_try_def)
  next
    case (Inr v)
    show ?thesis
    proof (cases "retval_truthy v")
      case True
      then have "io_emit ev v i1 = (res, i')"
        using assms run Inr by (simp add: todo_try_def)
      from io_emit_close_fault [OF this] k1 show ?thesis by simp
    next
      case False
      then show ?thesis using assms run Inr k1 by (simp add: todo_try_def)
    qed
  qed
qed

lemma todo_close_fault:
  assumes "todo self i payload r h = (res, r', i')"
  shows "ws_close_fault (io_ws i') = ws_close_fault (io_ws i)"
proof (cases "\<exists>kvs. payload = JObj kvs")
  case False
  then have "\<And>k. \<exists>e. py_get payload k = Inl e" by (cases payload) auto
  then obtain e where "py_get payload ''event'' = Inl e" by blast
  then show ?thesis using assms by (simp add: todo_def)
next
  case True
  then obtain ev dat cb where p: "py_get payload ''event'' = Inr ev"
      "py_get payload ''data'' = Inr dat" "py_get payload ''callback'' = Inr cb"
    by auto
  let ?r = "if truthy cb then r\<lparr>item_event := Some ev, item_callback := Some cb\<rparr> else r"
  obtain rt i1 where body: "todo_try self i ev dat (truthy cb) ?r h = (rt, i1)"
    by (cases "todo_try self i ev dat (truthy cb) ?r h")
  have k1: "ws_close_fault (io_ws i1) = ws_close_fault (io_ws i)"
    using body by (rule todo_try_close_fault)
  show ?thesis
  proof (cases rt)
    case (Inr u)
    then show ?thesis using assms p body k1 by (simp add: todo_def Let_def)
  next
    case (Inl e)
    show ?thesis
    proof (cases "is_Exception e")
      case False
      then show ?thesis using assms p body Inl k1 by (simp add: todo_def Let_def)
    next
      case True
      obtain re i2 where em: "io_emit (JStr ''error'') (error_frame e) i1 = (re, i2)"
        by (cases "io_emit (JStr ''error'') (error_frame e) i1")
      have "i' = i2" using assms p body Inl True em by (simp add: todo_def Let_def)
      with io_emit_close_fault [OF em] k1 show ?thesis by simp
    qed
  qed
qed

lemma receive_loop_close_fault:
  "receive_loop self h ms fin r i = (res, r', i') \<Longrightarrow>
     ws_close_fault (io_ws i') = ws_close_fault (io_ws i)"
proof (induction self h ms fin r i rule: receive_loop.induct)
  case (1 self h fin r i)
  then show ?case by (auto split: ending.splits)
next
  case (2 self h ms fin r i)
  obtain re i1 where em:
      "io_emit (JStr ''error'') (Plain (JObj [(''message'', JStr ''Invalid JSON format'')])) i
         = (re, i1)"
    by (cases "io_emit (JStr ''error'')
                 (Plain (JObj [(''message'', JStr ''Invalid JSON format'')])) i")
  have k1: "ws_close_fault (io_ws i1) = ws_close_fault (io_ws i)"
    using em by (rule io_emit_close_fault)
  show ?case
  proof (cases re)
    case (Inl e)
    then show ?thesis using "2.prems" em k1 by simp
  next
    case (Inr u)
    then have "receive_loop self h ms fin r i1 = (res, r', i')"
      using "2.prems" em by simp
    with "2.IH" [of re i1] em Inr have "ws_close_fault (io_ws i') = ws_close_fault (io_ws i1)"
      by simp
    then show ?thesis using k1 by simp
  qed
next
  case (3 self h payload ms fin r i)
  obtain rt r1 i1 where td: "todo self i payload r h = (rt, r1, i1)"
    by (cases "todo self i payload r h")
  have k1: "ws_close_fault (io_ws i1) = ws_close_fault (io_ws i)"
    using td by (rule todo_close_fault)
  show ?case
  proof (cases rt)
    case (Inr u)
    then have "receive_loop self h ms fin r1 i1 = (res, r', i')"
      using "3.prems" td by simp
    with "3.IH" td Inr have "ws_close_fault (io_ws i') = ws_close_fault (io_ws i1)"
      by auto
    then show ?thesis using k1 by simp
  next
    case (Inl e)
    show ?thesis
    proof (cases "is_Exception e")
      case False
      then show ?thesis using "3.prems" td Inl k1 by simp
    next
      case True
      obtain re i2 where em: "io_emit (JStr ''error'') (unexpected e) i1 = (re, i2)"
        by (cases "io_emit (JStr ''error'') (unexpected e) i1")
      have k2: "ws_close_fault (io_ws i2) = ws_close_fault (io_ws i1)"
        using em by (rule io_emit_close_fault)
      show ?thesis
      proof (cases re)
        case (Inl e')
        then show ?thesis using "3.prems" td \<open>rt = Inl e\<close> True em k1 k2 by simp
      next
        case (Inr u)
        then have "receive_loop self h ms fin r1 i2 = (res, r', i')"
          using "3.prems" td \<open>rt = Inl e\<close> True em by simp
        with "3.IH" td \<open>rt = Inl e\<close> True em Inr
        have "ws_close_fault (io_ws i') = ws_close_fault (io_ws i2)"
          by auto
        then show ?thesis using k1 k2 by simp
      qed
    qed
  qed
qed auto

text \<open>
  When \<open>close()\<close> completes, the cleanup is as the \<open>finally\<close> block intends: however
  the receive loop ends, the id is out of the registry and the websocket is closed.
\<close>

lemma cleanup_when_close_completes:
  assumes "can_prepare req" "prepare_raises req = None"
  shows "map_of (socket_clients (snd (init_websocket self req h kw_id rand_id faults None ms fin)))
           (case kw_id of None \<Rightarrow> rand_id | Some k \<Rightarrow> k) = None
       \<and> (\<exists>i. objects (snd (init_websocket self req h kw_id rand_id faults None ms fin))
                 (next_obj self) = Some i
              \<and> ws_closed (io_ws i))"
proof -
  let ?ident = "case kw_id of None \<Rightarrow> rand_id | Some k \<Rightarrow> k"
  let ?i = "\<lparr>io_ws = \<lparr>ws_closed = False, ws_sent = [], ws_faults = faults,
                       ws_close_fault = None\<rparr>, io_id = ?ident\<rparr>"
  let ?self1 = "self\<lparr>socket_clients := dict_set ?ident (next_obj self) (socket_clients self),
                     objects := (objects self)(next_obj self \<mapsto> ?i),
                     next_obj := next_obj self + 1\<rparr>"
  obtain res r' i' where loop: "receive_loop ?self1 h ms fin req ?i = (res, r', i')"
    by (cases "receive_loop ?self1 h ms fin req ?i")
  have "ws_close_fault (io_ws i') = None"
    using receive_loop_close_fault [OF loop] by simp
  then show ?thesis
    using assms loop
    by (simp add: init_websocket_def Let_def map_of_dict_pop ws_close_def)
qed

text \<open>
  C5. The claim: however the receive loop ends, the connection's id is removed from the
  registry and its websocket closed. The \<open>finally\<close> block closes the websocket first
  and pops the id after that, so the pop depends on \<open>close()\<close>: here a text message is
  not JSON, the send of the \<open>error\<close> event raises and leaves the loop body with the
  websocket still open, and \<open>close()\<close> raises \<open>CancelledError\<close>. \<open>init_websocket\<close>
  ends with that exception and the id is still registered.
\<close>

theorem failed_close_skips_pop:
  "fst (init_websocket no_app upgrade_request (echo_handler (Plain JNull)) None ''0123456789''
          [Some (Exception ''reset'')] (Some Cancelled) [Text None] (Stops False))
     = Inl Cancelled
   \<and> socket_clients (snd (init_websocket no_app upgrade_request (echo_handler (Plain JNull))
          None ''0123456789'' [Some (Exception ''reset'')] (Some Cancelled) [Text None]
          (Stops False)))
     = [(''0123456789'', 0)]"
  by (simp add: init_websocket_def no_app_def upgrade_request_def plain_request_def Let_def
      io_emit_def send_json_def ws_close_def)

text \<open>
  C6. The claim: an upgrade request that fails validation gets a client error and leaves
  the registry unchanged. The code registers the new \<open>IO\<close> before it validates, and
  the early return does not take it out again. With a connection registered under
  \<open>"7"\<close> and a plain HTTP request that names \<open>id = "7"\<close>, the response is the client
  error, but the registry now maps \<open>"7"\<close> to the new object; when that object is
  reclaimed, the weak registry has no entry for \<open>"7"\<close> at all, though the first
  connection is still live.
\<close>

theorem rejected_upgrade_changes_registry:
  "socket_clients one_app = [(''7'', 0)]
   \<and> fst (init_websocket one_app plain_request (echo_handler (Plain JNull))
            (Some ''7'') ''0123456789'' [] None [] (Stops True)) = Inr BadRequest
   \<and> socket_clients (snd (init_websocket one_app plain_request (echo_handler (Plain JNull))
            (Some ''7'') ''0123456789'' [] None [] (Stops True))) = [(''7'', 1)]
   \<and> socket_clients (reclaim 1 (snd (init_websocket one_app plain_request (echo_handler (Plain JNull))
            (Some ''7'') ''0123456789'' [] None [] (Stops True)))) = []
   \<and> objects (reclaim 1 (snd (init_websocket one_app plain_request (echo_handler (Plain JNull))
            (Some ''7'') ''0123456789'' [] None [] (Stops True)))) 0
       = Some \<lparr>io_ws = open_ws, io_id = ''7''\<rparr>"
  by (simp add: init_websocket_def reclaim_def one_app_def no_app_def plain_request_def Let_def)

end
